theory Spec2Isabelle
  imports Complex_Main "HOL-Library.AList" "HOL-Library.Stream"
begin

section \<open>The workflow DAG engine of neovm-taskd\<close>

text \<open>
  A shallow embedding of the \<^verbatim>\<open>Workflow\<close> class of \<^verbatim>\<open>src/taw/Workflow.ts\<close> (the same
  text is \<^verbatim>\<open>src/task/Workflow.ts\<close>) over the data of \<^verbatim>\<open>src/taw/schema/workflow.ts\<close>,
  with the resolver of \<^verbatim>\<open>src/taw/WorkflowPure.ts\<close> beside it.

  Conventions of the embedding:
  \<^item> a zod object is a record, a zod enum a datatype, an optional field an \<open>option\<close>;
  \<^item> a value of TypeScript type \<^verbatim>\<open>any\<close> or \<^verbatim>\<open>unknown\<close> is a \<open>jsval\<close>: \<^verbatim>\<open>undefined\<close>,
    \<^verbatim>\<open>null\<close>, a boolean, an integer, a string, an array or a plain object (data, not
    shared with another object);
  \<^item> a \<^verbatim>\<open>z.record\<close> (a JavaScript object used as a dictionary) is a \<open>js_object\<close>: its own
    properties in insertion order, with distinct keys, and its prototype, which is
    \<^verbatim>\<open>Object.prototype\<close> unless an assignment to the key \<^verbatim>\<open>__proto__\<close> has replaced it.
    Reading \<^verbatim>\<open>stepStates[key]\<close> follows the prototype chain; assigning to a key stores an
    own property, except that assigning to \<^verbatim>\<open>__proto__\<close> runs the prototype setter;
  \<^item> a step-state object is represented by the seven fields of the schema, each
    optional at run time (the methods can produce a record without \<^verbatim>\<open>status\<close>); other
    properties an object may carry, and values of another type in these fields, are not
    represented;
  \<^item> timestamps are integers (milliseconds); \<^verbatim>\<open>Date.now()\<close> reads the head of a stream
    of clock readings and leaves the tail, so two readings inside one method may differ;
  \<^item> a method that assigns to \<^verbatim>\<open>this._data\<close> is a function from the world (the data and
    the clock) to the world; none of the methods of \<^verbatim>\<open>Workflow.ts\<close> modelled here can
    throw;
  \<^item> field names are the source's, prefixed where two records share a name
    (\<open>step_id\<close>, \<open>es_status\<close>, \<open>p_status\<close>, ...); \<^verbatim>\<open>definition\<close> is \<open>wf_definition\<close>;
  \<^item> fields that none of the modelled methods reads or writes (\<^verbatim>\<open>taskId\<close>, \<^verbatim>\<open>resources\<close>,
    \<^verbatim>\<open>errorHandling\<close>, \<^verbatim>\<open>scheduling\<close>, \<^verbatim>\<open>genkit\<close>, ...) are left out of the records.

  The writers of \<^verbatim>\<open>WorkflowPure.ts\<close> are typed against a schema that is not in the
  repository (step states with \<^verbatim>\<open>attempts\<close> and \<^verbatim>\<open>lastAttempt\<close>); the writers modelled
  here are those of \<^verbatim>\<open>Workflow.ts\<close>.
\<close>

subsection \<open>JavaScript values and objects\<close>

datatype jsval =
  JUndefined | JNull | JBool bool | JNum int | JStr string
  | JArr "jsval list" | JObj "(string \<times> jsval) list"

text \<open>\<^verbatim>\<open>!!v\<close>: every object is truthy; \<^verbatim>\<open>undefined\<close>, \<^verbatim>\<open>null\<close>, \<^verbatim>\<open>false\<close>, \<^verbatim>\<open>0\<close> and \<^verbatim>\<open>''\<close> are not.\<close>

fun truthy :: "jsval \<Rightarrow> bool" where
  "truthy JUndefined = False"
| "truthy JNull = False"
| "truthy (JBool b) = b"
| "truthy (JNum n) = (n \<noteq> 0)"
| "truthy (JStr s) = (s \<noteq> [])"
| "truthy (JArr xs) = True"
| "truthy (JObj ps) = True"

text \<open>
  The prototype of a dictionary object: \<^verbatim>\<open>Object.prototype\<close>, \<^verbatim>\<open>null\<close>, or the object an
  assignment to \<^verbatim>\<open>__proto__\<close> has installed.
\<close>

datatype 'a proto = Object_prototype | Null_prototype | Replaced 'a

record 'a js_object =
  own :: "(string \<times> 'a) list"
  prototype :: "'a proto"

text \<open>The property names of \<^verbatim>\<open>Object.prototype\<close>; all but \<^verbatim>\<open>__proto__\<close> are functions.\<close>

definition Object_prototype_names :: "string list" where
  "Object_prototype_names =
     [''constructor'', ''__defineGetter__'', ''__defineSetter__'', ''hasOwnProperty'',
      ''__lookupGetter__'', ''__lookupSetter__'', ''isPrototypeOf'', ''propertyIsEnumerable'',
      ''toString'', ''valueOf'', ''__proto__'', ''toLocaleString'']"

text \<open>A field of a partial update: the key is absent, or present with a value.\<close>

datatype 'a field = Absent | Present 'a

subsection \<open>Data model (schema/workflow.ts)\<close>

datatype StepType = Task | Subworkflow | Decision | Parallel | Wait | Manual

datatype BackoffStrategy = Fixed | Exponential | Linear

record Condition =
  expression :: "string option"

record RetryPolicy =
  maxAttempts :: nat
  backoffStrategy :: BackoffStrategy
  initialDelayMs :: nat
  maxDelayMs :: "nat option"
  jitterPercent :: real

record WorkflowStep =
  step_id :: string
  step_name :: string
  step_type :: StepType
  dependsOn :: "string list"
  runAfter :: "string list"
  condition :: "Condition option"
  retryPolicy :: "RetryPolicy option"

datatype FlowType = Sequential | ParallelFlow | Dag | StateMachine

record WorkflowDefinition =
  steps :: "WorkflowStep list"
  startStep :: string
  endSteps :: "string list"
  flowType :: FlowType
  maxConcurrency :: "nat option"

datatype WorkflowStatus =
  Draft | Pending | Running | Paused | Completed | Failed | Cancelled | Timeout | Suspended

datatype StepStatus =
  StepPending | StepRunning | StepCompleted | StepFailed | StepSkipped | StepCancelled

record Progress =
  totalSteps :: nat
  completedSteps :: nat
  failedSteps :: nat
  skippedSteps :: nat
  progressPercent :: real

text \<open>
  A step-state object at run time. The schema requires \<^verbatim>\<open>status\<close> and defaults
  \<^verbatim>\<open>retryCount\<close>, but \<^verbatim>\<open>updateStepState\<close> can store a record without them, so every
  field is optional: \<open>None\<close> (\<open>JUndefined\<close> for \<^verbatim>\<open>result\<close>) is a key that is absent or
  holds \<^verbatim>\<open>undefined\<close>.
\<close>

record StepState =
  status :: "StepStatus option"
  startedAt :: "int option"
  completedAt :: "int option"
  duration :: "int option"
  retryCount :: "nat option"
  result :: jsval
  error :: "string option"

text \<open>
  \<^verbatim>\<open>Partial<StepState>\<close>: every key may be absent, and a key that is present may hold
  \<^verbatim>\<open>undefined\<close> (\<open>Present None\<close>, \<open>Present JUndefined\<close>).
\<close>

record StepStatePartial =
  p_status :: "StepStatus option field"
  p_startedAt :: "int option field"
  p_completedAt :: "int option field"
  p_duration :: "int option field"
  p_retryCount :: "nat option field"
  p_result :: "jsval field"
  p_error :: "string option field"

record ExecutionState =
  es_status :: WorkflowStatus
  progress :: Progress
  scheduledAt :: "int option"
  es_startedAt :: "int option"
  es_completedAt :: "int option"
  currentStep :: "string option"
  activeSteps :: "string list"
  waitingSteps :: "string list"
  stepStates :: "StepState js_object"
  variables :: "jsval js_object option"
  outputs :: "jsval js_object option"

record AuditEntry =
  timestamp :: int
  action :: string
  details :: "(string \<times> string) list option"

record WorkflowMetadata =
  createdAt :: int
  updatedAt :: int
  auditLog :: "AuditEntry list"

record Workflow =
  wf_id :: string
  wf_name :: string
  wf_definition :: WorkflowDefinition
  executionState :: ExecutionState
  metadata :: WorkflowMetadata

subsection \<open>The clock\<close>

type_synonym clock = "int stream"

definition Date_now :: "clock \<Rightarrow> int \<times> clock" where
  "Date_now c = (shd c, stl c)"

type_synonym world = "Workflow \<times> clock"

subsection \<open>Reading and assigning a key of \<^verbatim>\<open>stepStates\<close>\<close>

fun stepStatusName :: "StepStatus \<Rightarrow> string" where
  "stepStatusName StepPending = ''pending''"
| "stepStatusName StepRunning = ''running''"
| "stepStatusName StepCompleted = ''completed''"
| "stepStatusName StepFailed = ''failed''"
| "stepStatusName StepSkipped = ''skipped''"
| "stepStatusName StepCancelled = ''cancelled''"

definition parseStepStatus :: "string \<Rightarrow> StepStatus option" where
  "parseStepStatus s =
     (if s = ''pending'' then Some StepPending
      else if s = ''running'' then Some StepRunning
      else if s = ''completed'' then Some StepCompleted
      else if s = ''failed'' then Some StepFailed
      else if s = ''skipped'' then Some StepSkipped
      else if s = ''cancelled'' then Some StepCancelled
      else None)"

text \<open>The own properties of a step-state object that hold a value.\<close>

definition state_props :: "StepState \<Rightarrow> (string \<times> jsval) list" where
  "state_props r =
     (case status r of None \<Rightarrow> [] | Some s \<Rightarrow> [(''status'', JStr (stepStatusName s))]) @
     (case startedAt r of None \<Rightarrow> [] | Some n \<Rightarrow> [(''startedAt'', JNum n)]) @
     (case completedAt r of None \<Rightarrow> [] | Some n \<Rightarrow> [(''completedAt'', JNum n)]) @
     (case duration r of None \<Rightarrow> [] | Some n \<Rightarrow> [(''duration'', JNum n)]) @
     (case retryCount r of None \<Rightarrow> [] | Some n \<Rightarrow> [(''retryCount'', JNum (int n))]) @
     (if result r = JUndefined then [] else [(''result'', result r)]) @
     (case error r of None \<Rightarrow> [] | Some e \<Rightarrow> [(''error'', JStr e)])"

definition emptyState :: StepState where
  "emptyState =
     \<lparr>status = None, startedAt = None, completedAt = None, duration = None,
      retryCount = None, result = JUndefined, error = None\<rparr>"

text \<open>
  The schema fields that the spread \<^verbatim>\<open>{...v}\<close> of a value copies: those of a plain
  object; a primitive has none, and the index keys of a string or an array are not
  schema fields.
\<close>

definition as_state :: "jsval \<Rightarrow> StepState" where
  "as_state v =
     (case v of
        JObj ps \<Rightarrow>
          \<lparr>status = (case map_of ps ''status'' of Some (JStr s) \<Rightarrow> parseStepStatus s | _ \<Rightarrow> None),
           startedAt = (case map_of ps ''startedAt'' of Some (JNum n) \<Rightarrow> Some n | _ \<Rightarrow> None),
           completedAt = (case map_of ps ''completedAt'' of Some (JNum n) \<Rightarrow> Some n | _ \<Rightarrow> None),
           duration = (case map_of ps ''duration'' of Some (JNum n) \<Rightarrow> Some n | _ \<Rightarrow> None),
           retryCount = (case map_of ps ''retryCount'' of
                           Some (JNum n) \<Rightarrow> (if 0 \<le> n then Some (nat n) else None)
                         | _ \<Rightarrow> None),
           result = (case map_of ps ''result'' of Some x \<Rightarrow> x | None \<Rightarrow> JUndefined),
           error = (case map_of ps ''error'' of Some (JStr e) \<Rightarrow> Some e | _ \<Rightarrow> None)\<rparr>
      | _ \<Rightarrow> emptyState)"

text \<open>
  What \<^verbatim>\<open>stepStates[key]\<close> evaluates to: \<^verbatim>\<open>undefined\<close>; a step-state object (an own
  property, or the replaced prototype read through \<^verbatim>\<open>__proto__\<close>); a member of
  \<^verbatim>\<open>Object.prototype\<close> (a function, or \<^verbatim>\<open>Object.prototype\<close> itself for \<^verbatim>\<open>__proto__\<close>); or a
  property value of the replaced prototype.
\<close>

datatype property = Undefined | Object StepState | Builtin | Inherited jsval

definition js_get :: "StepState js_object \<Rightarrow> string \<Rightarrow> property" where
  "js_get obj key =
     (case map_of (own obj) key of
        Some r \<Rightarrow> Object r
      | None \<Rightarrow>
          (case prototype obj of
             Null_prototype \<Rightarrow> Undefined
           | Object_prototype \<Rightarrow>
               (if key \<in> set Object_prototype_names then Builtin else Undefined)
           | Replaced p \<Rightarrow>
               (case map_of (state_props p) key of
                  Some v \<Rightarrow> Inherited v
                | None \<Rightarrow>
                    (if key = ''__proto__'' then Object p
                     else if key \<in> set Object_prototype_names then Builtin
                     else Undefined))))"

text \<open>\<^verbatim>\<open>!x\<close> for the value read.\<close>

fun js_not :: "property \<Rightarrow> bool" where
  "js_not Undefined = True"
| "js_not (Object r) = False"
| "js_not Builtin = False"
| "js_not (Inherited v) = (\<not> truthy v)"

text \<open>
  \<^verbatim>\<open>x.status\<close> for a truthy value read, as far as it is one of the six status names (the
  methods only compare it with these): a function, \<^verbatim>\<open>Object.prototype\<close> and a primitive
  have no \<^verbatim>\<open>status\<close>.
\<close>

fun status_of :: "property \<Rightarrow> StepStatus option" where
  "status_of Undefined = None"
| "status_of (Object r) = status r"
| "status_of Builtin = None"
| "status_of (Inherited v) = status (as_state v)"

text \<open>The schema fields that the spread \<^verbatim>\<open>{...x}\<close> of the value read copies.\<close>

fun spread :: "property \<Rightarrow> StepState" where
  "spread Undefined = emptyState"
| "spread (Object r) = r"
| "spread Builtin = emptyState"
| "spread (Inherited v) = as_state v"

text \<open>
  \<^verbatim>\<open>stepStates[key] = r\<close> for an object \<open>r\<close>. An own property of that name is
  overwritten. Otherwise the key \<^verbatim>\<open>__proto__\<close> reaches the accessor of
  \<^verbatim>\<open>Object.prototype\<close> (unless the prototype is \<^verbatim>\<open>null\<close>), whose setter makes \<open>r\<close> the
  prototype and stores nothing; every other key gets a new own property.
\<close>

definition assign_state :: "StepState js_object \<Rightarrow> string \<Rightarrow> StepState \<Rightarrow> StepState js_object" where
  "assign_state obj key r =
     (if map_of (own obj) key = None \<and> key = ''__proto__'' \<and> prototype obj \<noteq> Null_prototype
      then obj\<lparr>prototype := Replaced r\<rparr>
      else obj\<lparr>own := AList.update key r (own obj)\<rparr>)"

text \<open>
  \<^verbatim>\<open>outputs[key] = v\<close> for any value. As above; the setter of \<^verbatim>\<open>__proto__\<close> installs an
  object, installs \<^verbatim>\<open>null\<close>, and ignores a primitive. A replaced prototype that has an own
  property named \<^verbatim>\<open>__proto__\<close> hides the accessor, and the assignment stores an own
  property.
\<close>

definition hides_accessor :: "jsval proto \<Rightarrow> bool" where
  "hides_accessor p =
     (case p of
        Null_prototype \<Rightarrow> True
      | Object_prototype \<Rightarrow> False
      | Replaced v \<Rightarrow> (case v of JObj ps \<Rightarrow> map_of ps ''__proto__'' \<noteq> None | _ \<Rightarrow> False))"

definition assign_value :: "jsval js_object \<Rightarrow> string \<Rightarrow> jsval \<Rightarrow> jsval js_object" where
  "assign_value obj key v =
     (if map_of (own obj) key = None \<and> key = ''__proto__'' \<and> \<not> hides_accessor (prototype obj)
      then (case v of
              JObj ps \<Rightarrow> obj\<lparr>prototype := Replaced v\<rparr>
            | JArr xs \<Rightarrow> obj\<lparr>prototype := Replaced v\<rparr>
            | JNull \<Rightarrow> obj\<lparr>prototype := Null_prototype\<rparr>
            | _ \<Rightarrow> obj)
      else obj\<lparr>own := AList.update key v (own obj)\<rparr>)"

subsection \<open>Step management (Workflow.ts, lines 304-336)\<close>

definition getStep :: "Workflow \<Rightarrow> string \<Rightarrow> WorkflowStep option" where
  "getStep w stepId = find (\<lambda>step. step_id step = stepId) (steps (wf_definition w))"

definition getStepState :: "Workflow \<Rightarrow> string \<Rightarrow> property" where
  "getStepState w stepId = js_get (stepStates (executionState w)) stepId"

text \<open>
  The \<^verbatim>\<open>for\<close> loop over \<^verbatim>\<open>step.dependsOn\<close> returns \<^verbatim>\<open>false\<close> at the first dependency for
  which \<^verbatim>\<open>!depState || depState.status !== 'completed'\<close> holds, and \<^verbatim>\<open>true\<close> after the last
  one.
\<close>

definition isStepReady :: "Workflow \<Rightarrow> string \<Rightarrow> bool" where
  "isStepReady w stepId =
     (case getStep w stepId of
        None \<Rightarrow> False
      | Some step \<Rightarrow>
          list_all
            (\<lambda>depId. if js_not (getStepState w depId)
                         \<or> status_of (getStepState w depId) \<noteq> Some StepCompleted
                      then False else True)
            (dependsOn step))"

definition getReadySteps :: "Workflow \<Rightarrow> string list" where
  "getReadySteps w =
     map step_id
       (filter
          (\<lambda>step. (js_not (getStepState w (step_id step))
                    \<or> status_of (getStepState w (step_id step)) = Some StepPending)
                   \<and> isStepReady w (step_id step))
          (steps (wf_definition w)))"

text \<open>
  A call of the method on an object: the value it returns and the world it leaves. The
  body of \<^verbatim>\<open>getReadySteps\<close> (with \<^verbatim>\<open>getStep\<close>, \<^verbatim>\<open>getStepState\<close> and \<^verbatim>\<open>isStepReady\<close>)
  has no assignment and no \<^verbatim>\<open>Date.now()\<close>.
\<close>

definition call_getReadySteps :: "world \<Rightarrow> string list \<times> world" where
  "call_getReadySteps wd = (getReadySteps (fst wd), wd)"

subsection \<open>The resolver of WorkflowPure.ts (lines 122-141)\<close>

datatype js_error = TypeError

text \<open>
  \<^verbatim>\<open>WorkflowPure.ts\<close> reads \<^verbatim>\<open>step.dependencies\<close>. The step schema of the repository has
  no such key (the hard dependencies are \<^verbatim>\<open>dependsOn\<close>) and \<^verbatim>\<open>WorkflowSchema.parse\<close>, which
  the constructor runs, keeps the keys of the schema only: the property is \<^verbatim>\<open>undefined\<close>
  on every step, and \<^verbatim>\<open>undefined.every(...)\<close> throws a \<^verbatim>\<open>TypeError\<close>.
\<close>

definition step_dependencies :: "WorkflowStep \<Rightarrow> string list option" where
  "step_dependencies step = None"

definition isStepReady_Pure :: "Workflow \<Rightarrow> string \<Rightarrow> js_error + bool" where
  "isStepReady_Pure w stepId =
     (case getStep w stepId of
        None \<Rightarrow> Inr False
      | Some step \<Rightarrow>
          (case step_dependencies step of
             None \<Rightarrow> Inl TypeError
           | Some deps \<Rightarrow>
               Inr (list_all
                      (\<lambda>depId. status_of (getStepState w depId) = Some StepCompleted) deps)))"

text \<open>\<^verbatim>\<open>Array.prototype.filter\<close> with a callback that may throw: the first throw ends it.\<close>

fun filter_throwing :: "('a \<Rightarrow> js_error + bool) \<Rightarrow> 'a list \<Rightarrow> js_error + 'a list" where
  "filter_throwing f [] = Inr []"
| "filter_throwing f (x # xs) =
     (case f x of
        Inl e \<Rightarrow> Inl e
      | Inr keep \<Rightarrow>
          (case filter_throwing f xs of
             Inl e \<Rightarrow> Inl e
           | Inr ys \<Rightarrow> Inr (if keep then x # ys else ys)))"

definition getReadySteps_Pure :: "Workflow \<Rightarrow> js_error + string list" where
  "getReadySteps_Pure w =
     (case filter_throwing (\<lambda>step. isStepReady_Pure w (step_id step)) (steps (wf_definition w)) of
        Inl e \<Rightarrow> Inl e
      | Inr ready \<Rightarrow>
          Inr (map step_id
                 (filter
                    (\<lambda>step. js_not (getStepState w (step_id step))
                             \<or> status_of (getStepState w (step_id step)) = Some StepPending)
                    ready)))"

subsection \<open>State management (Workflow.ts, lines 186-286)\<close>

text \<open>The statement \<^verbatim>\<open>this._data.metadata.updatedAt = Date.now()\<close>, which ends most writers.\<close>

definition set_updatedAt :: "world \<Rightarrow> world" where
  "set_updatedAt wd =
     (let (w, c) = wd; (t, c') = Date_now c
      in (w\<lparr>metadata := (metadata w)\<lparr>updatedAt := t\<rparr>\<rparr>, c'))"

text \<open>\<^verbatim>\<open>!x\<close> for an optional number: true for \<^verbatim>\<open>undefined\<close> and for \<^verbatim>\<open>0\<close>.\<close>

definition falsy :: "int option \<Rightarrow> bool" where
  "falsy x = (case x of None \<Rightarrow> True | Some n \<Rightarrow> n = 0)"

fun statusName :: "WorkflowStatus \<Rightarrow> string" where
  "statusName Draft = ''draft''"
| "statusName Pending = ''pending''"
| "statusName Running = ''running''"
| "statusName Paused = ''paused''"
| "statusName Completed = ''completed''"
| "statusName Failed = ''failed''"
| "statusName Cancelled = ''cancelled''"
| "statusName Timeout = ''timeout''"
| "statusName Suspended = ''suspended''"

definition updateStatus :: "WorkflowStatus \<Rightarrow> world \<Rightarrow> world" where
  "updateStatus st wd =
     (let (w, c) = wd;
          w1 = w\<lparr>executionState := (executionState w)\<lparr>es_status := st\<rparr>\<rparr>;
          (w2, c2) = set_updatedAt (w1, c);
          (w3, c3) =
            (if st = Running \<and> falsy (es_startedAt (executionState w2))
             then (let (t, c') = Date_now c2
                   in (w2\<lparr>executionState := (executionState w2)\<lparr>es_startedAt := Some t\<rparr>\<rparr>, c'))
             else (w2, c2));
          (w4, c4) =
            (if st \<in> set [Completed, Failed, Cancelled]
             then (let (t, c') = Date_now c3
                   in (w3\<lparr>executionState := (executionState w3)\<lparr>es_completedAt := Some t\<rparr>\<rparr>, c'))
             else (w3, c3));
          (t5, c5) = Date_now c4
      in (w4\<lparr>metadata := (metadata w4)
               \<lparr>auditLog := auditLog (metadata w4) @
                  [\<lparr>timestamp = t5, action = ''status_changed_to_'' @ statusName st,
                    details = None\<rparr>]\<rparr>\<rparr>,
          c5))"

text \<open>\<^verbatim>\<open>Object.values\<close>: the values of an object's own properties.\<close>

definition Object_values :: "'a js_object \<Rightarrow> 'a list" where
  "Object_values obj = map snd (own obj)"

definition updateProgress :: "world \<Rightarrow> world" where
  "updateProgress wd =
     (let (w, c) = wd;
          total = length (steps (wf_definition w));
          completed = length (filter (\<lambda>state. status state = Some StepCompleted)
                        (Object_values (stepStates (executionState w))));
          failed = length (filter (\<lambda>state. status state = Some StepFailed)
                     (Object_values (stepStates (executionState w))));
          skipped = length (filter (\<lambda>state. status state = Some StepSkipped)
                      (Object_values (stepStates (executionState w))));
          w1 = w\<lparr>executionState := (executionState w)
                 \<lparr>progress :=
                    \<lparr>totalSteps = total, completedSteps = completed, failedSteps = failed,
                     skippedSteps = skipped,
                     progressPercent =
                       (if total > 0 then (real completed / real total) * 100 else 0)\<rparr>\<rparr>\<rparr>
      in set_updatedAt (w1, c))"

text \<open>The object literal \<^verbatim>\<open>{ status: 'pending', retryCount: 0 }\<close>.\<close>

definition defaultStepState :: StepState where
  "defaultStepState =
     \<lparr>status = Some StepPending, startedAt = None, completedAt = None, duration = None,
      retryCount = Some 0, result = JUndefined, error = None\<rparr>"

text \<open>
  One key of the object spread \<^verbatim>\<open>{...old, ...state}\<close>: a key that the partial update has
  wins, also with the value \<^verbatim>\<open>undefined\<close>; any other key keeps the old value.
\<close>

definition spread_field :: "'a \<Rightarrow> 'a field \<Rightarrow> 'a" where
  "spread_field old new = (case new of Absent \<Rightarrow> old | Present x \<Rightarrow> x)"

definition mergeStepState :: "StepState \<Rightarrow> StepStatePartial \<Rightarrow> StepState" where
  "mergeStepState old state =
     \<lparr>status = spread_field (status old) (p_status state),
      startedAt = spread_field (startedAt old) (p_startedAt state),
      completedAt = spread_field (completedAt old) (p_completedAt state),
      duration = spread_field (duration old) (p_duration state),
      retryCount = spread_field (retryCount old) (p_retryCount state),
      result = spread_field (result old) (p_result state),
      error = spread_field (error old) (p_error state)\<rparr>"

text \<open>
  \<^verbatim>\<open>updateStepState\<close>: when \<^verbatim>\<open>!stepStates[stepId]\<close>, assign the default record; assign the
  spread of \<^verbatim>\<open>stepStates[stepId]\<close> and the partial update; maintain \<^verbatim>\<open>activeSteps\<close>
  (\<^verbatim>\<open>push\<close> when absent; \<^verbatim>\<open>indexOf\<close> and \<^verbatim>\<open>splice\<close> remove the first occurrence); then
  \<^verbatim>\<open>updateProgress()\<close> and the time stamp.
\<close>

definition updateStepState :: "string \<Rightarrow> StepStatePartial \<Rightarrow> world \<Rightarrow> world" where
  "updateStepState stepId state wd =
     (let (w, c) = wd;
          ss = stepStates (executionState w);
          ss1 = (if js_not (js_get ss stepId) then assign_state ss stepId defaultStepState
                 else ss);
          ss2 = assign_state ss1 stepId (mergeStepState (spread (js_get ss1 stepId)) state);
          active = activeSteps (executionState w);
          active' =
            (if p_status state = Present (Some StepRunning)
             then (if stepId \<in> set active then active else active @ [stepId])
             else remove1 stepId active);
          w1 = w\<lparr>executionState := (executionState w)
                 \<lparr>stepStates := ss2, activeSteps := active'\<rparr>\<rparr>
      in set_updatedAt (updateProgress (w1, c)))"

text \<open>The object literal \<^verbatim>\<open>{}\<close>.\<close>

definition empty_object :: "'a js_object" where
  "empty_object = \<lparr>own = [], prototype = Object_prototype\<rparr>"

definition setOutput :: "string \<Rightarrow> jsval \<Rightarrow> world \<Rightarrow> world" where
  "setOutput key val wd =
     (let (w, c) = wd;
          outs = (case outputs (executionState w) of None \<Rightarrow> empty_object | Some obj \<Rightarrow> obj);
          w1 = w\<lparr>executionState := (executionState w)
                 \<lparr>outputs := Some (assign_value outs key val)\<rparr>\<rparr>
      in set_updatedAt (w1, c))"

text \<open>
  What the output bag stores at a key: the own property of that name, if the bag
  exists and has one.
\<close>

definition outputAt :: "Workflow \<Rightarrow> string \<Rightarrow> jsval option" where
  "outputAt w key =
     (case outputs (executionState w) of None \<Rightarrow> None | Some obj \<Rightarrow> map_of (own obj) key)"

subsection \<open>Concrete workflows\<close>

definition mk_step :: "string \<Rightarrow> string list \<Rightarrow> Condition option \<Rightarrow> WorkflowStep" where
  "mk_step i deps cond =
     \<lparr>step_id = i, step_name = i, step_type = Task, dependsOn = deps, runAfter = [],
      condition = cond, retryPolicy = None\<rparr>"

definition mk_state :: "StepStatus \<Rightarrow> StepState" where
  "mk_state s = defaultStepState\<lparr>status := Some s\<rparr>"

definition mk_workflow ::
  "WorkflowStep list \<Rightarrow> nat option \<Rightarrow> WorkflowStatus \<Rightarrow> (string \<times> StepState) list
     \<Rightarrow> Workflow" where
  "mk_workflow ss conc st states =
     \<lparr>wf_id = ''wf'', wf_name = ''wf'',
      wf_definition =
        \<lparr>steps = ss, startStep = [], endSteps = [], flowType = Dag, maxConcurrency = conc\<rparr>,
      executionState =
        \<lparr>es_status = st,
         progress = \<lparr>totalSteps = 0, completedSteps = 0, failedSteps = 0, skippedSteps = 0,
                     progressPercent = 0\<rparr>,
         scheduledAt = None, es_startedAt = None, es_completedAt = None, currentStep = None,
         activeSteps = [], waitingSteps = [],
         stepStates = \<lparr>own = states, prototype = Object_prototype\<rparr>,
         variables = None, outputs = None\<rparr>,
      metadata = \<lparr>createdAt = 1, updatedAt = 1, auditLog = []\<rparr>\<rparr>"

definition clock0 :: clock where
  "clock0 = siterate (\<lambda>t. t + 1) 1000"

definition no_patch :: StepStatePartial where
  "no_patch =
     \<lparr>p_status = Absent, p_startedAt = Absent, p_completedAt = Absent, p_duration = Absent,
      p_retryCount = Absent, p_result = Absent, p_error = Absent\<rparr>"

definition status_patch :: "StepStatus \<Rightarrow> StepStatePartial" where
  "status_patch s = no_patch\<lparr>p_status := Present (Some s)\<rparr>"

subsection \<open>Progress as the specification words it\<close>

text \<open>
  The specification's aggregate, for comparison with \<^verbatim>\<open>updateProgress\<close>: the total is the
  number of steps of the definition, the number of step states with a given status
  counts the keys of the collection whose record has that status, and the percentage is
  completed / total expressed in percent, 0 when the total is 0.
\<close>

definition count_status :: "Workflow \<Rightarrow> StepStatus \<Rightarrow> nat" where
  "count_status w s =
     card {stepId. map_option status (map_of (own (stepStates (executionState w))) stepId)
                   = Some (Some s)}"

definition spec_progress :: "Workflow \<Rightarrow> Progress" where
  "spec_progress w =
     \<lparr>totalSteps = length (steps (wf_definition w)),
      completedSteps = count_status w StepCompleted,
      failedSteps = count_status w StepFailed,
      skippedSteps = count_status w StepSkipped,
      progressPercent =
        (if length (steps (wf_definition w)) = 0 then 0
         else real (count_status w StepCompleted) / real (length (steps (wf_definition w))) * 100)\<rparr>"

subsection \<open>Scenarios\<close>

definition scenarioA :: Workflow where
  "scenarioA =
     mk_workflow
       [mk_step ''S1'' [] None, mk_step ''S2'' [''S1''] None, mk_step ''S3'' [''S1''] None,
        mk_step ''S4'' [''S2'', ''S3''] None]
       None Running [(''S1'', mk_state StepCompleted)]"

definition scenarioB_steps :: "WorkflowStep list" where
  "scenarioB_steps =
     [mk_step ''guarded'' [] (Some \<lparr>expression = Some ''false''\<rparr>),
      mk_step ''dependent'' [''guarded''] None]"

definition scenarioB_fresh :: Workflow where
  "scenarioB_fresh = mk_workflow scenarioB_steps None Running []"

definition scenarioB_skipped :: Workflow where
  "scenarioB_skipped =
     mk_workflow scenarioB_steps None Running [(''guarded'', mk_state StepSkipped)]"

definition scenarioD :: Workflow where
  "scenarioD =
     mk_workflow [mk_step ''S1'' [] None, mk_step ''S2'' [] None, mk_step ''S3'' [] None]
       (Some 2) Running []"

definition finished_run :: Workflow where
  "finished_run =
     mk_workflow [mk_step ''A'' [] None, mk_step ''B'' [''A''] None] None Completed
       [(''A'', mk_state StepCompleted), (''B'', mk_state StepCompleted)]"

definition cancelled_run :: Workflow where
  "cancelled_run =
     mk_workflow [mk_step ''A'' [] None, mk_step ''B'' [''A''] None] None Cancelled
       [(''A'', mk_state StepCompleted), (''B'', mk_state StepPending)]"

definition empty_graph :: Workflow where
  "empty_graph = mk_workflow [] None Running []"


section \<open>Lemmas\<close>

lemmas resolver_defs =
  getReadySteps_def isStepReady_def getStep_def getStepState_def js_get_def
  Object_prototype_names_def

subsection \<open>The resolver\<close>

lemma isStepReady_frame:
  assumes "steps (wf_definition w') = steps (wf_definition w)"
    and "stepStates (executionState w') = stepStates (executionState w)"
  shows "isStepReady w' = isStepReady w"
proof -
  have g: "getStep w' = getStep w"
    using assms(1) by (simp add: getStep_def fun_eq_iff)
  have s: "getStepState w' = getStepState w"
    using assms(2) by (simp add: getStepState_def fun_eq_iff)
  show ?thesis unfolding isStepReady_def fun_eq_iff g s by simp
qed

lemma getReadySteps_frame:
  assumes "steps (wf_definition w') = steps (wf_definition w)"
    and "stepStates (executionState w') = stepStates (executionState w)"
  shows "getReadySteps w' = getReadySteps w"
proof -
  have s: "getStepState w' = getStepState w"
    using assms(2) by (simp add: getStepState_def fun_eq_iff)
  show ?thesis
    unfolding getReadySteps_def isStepReady_frame[OF assms] s assms(1) by simp
qed

lemma getReadySteps_Pure_frame:
  assumes "steps (wf_definition w') = steps (wf_definition w)"
    and "stepStates (executionState w') = stepStates (executionState w)"
  shows "getReadySteps_Pure w' = getReadySteps_Pure w"
proof -
  have g: "getStep w' = getStep w"
    using assms(1) by (simp add: getStep_def fun_eq_iff)
  have s: "getStepState w' = getStepState w"
    using assms(2) by (simp add: getStepState_def fun_eq_iff)
  have r: "isStepReady_Pure w' = isStepReady_Pure w"
    unfolding isStepReady_Pure_def fun_eq_iff g s by simp
  show ?thesis
    unfolding getReadySteps_Pure_def r s assms(1) by simp
qed

lemma find_map_step:
  "(\<And>s. step_id (g s) = step_id s) \<Longrightarrow>
   find (\<lambda>s. step_id s = sid) (map g xs) = map_option g (find (\<lambda>s. step_id s = sid) xs)"
  by (induction xs) auto

lemma status_of_as_state: "status (as_state v) = Some s \<Longrightarrow> truthy v"
  by (cases v) (simp_all add: as_state_def emptyState_def)

lemma status_of_truthy: "status_of x = Some s \<Longrightarrow> \<not> js_not x"
  by (cases x) (auto dest: status_of_as_state)

lemma isStepReady_iff:
  "isStepReady w sid \<longleftrightarrow>
   (\<exists>step. getStep w sid = Some step \<and>
      (\<forall>d \<in> set (dependsOn step). status_of (getStepState w d) = Some StepCompleted))"
  by (auto simp: isStepReady_def list_all_iff split: option.splits dest: status_of_truthy)

lemma in_getReadySteps_iff:
  "sid \<in> set (getReadySteps w) \<longleftrightarrow>
   sid \<in> step_id ` set (steps (wf_definition w)) \<and>
   (js_not (getStepState w sid) \<or> status_of (getStepState w sid) = Some StepPending) \<and>
   isStepReady w sid"
  by (auto simp: getReadySteps_def)


subsection \<open>Reading and assigning\<close>

lemma state_props_proto: "map_of (state_props p) ''__proto__'' = None"
  by (simp add: state_props_def split: option.splits)

lemma js_not_assign:
  "js_not (js_get d k) \<Longrightarrow> assign_state d k r = d\<lparr>own := AList.update k r (own d)\<rparr>"
  by (auto simp: assign_state_def js_get_def state_props_proto Object_prototype_names_def
      split: option.splits proto.splits if_splits)

lemma js_get_assign_same: "js_get (assign_state d k r) k = Object r"
  by (auto simp: assign_state_def js_get_def update_conv' state_props_proto
      split: proto.splits)




lemma lookup_plain:
  assumes "prototype (stepStates (executionState w)) = Object_prototype"
  shows "status_of (getStepState w k) = Some s \<longleftrightarrow>
           (\<exists>r. map_of (own (stepStates (executionState w))) k = Some r \<and> status r = Some s)"
    and "js_not (getStepState w k) \<longleftrightarrow>
           map_of (own (stepStates (executionState w))) k = None \<and> k \<notin> set Object_prototype_names"
  using assms by (auto simp: getStepState_def js_get_def split: option.splits)

subsection \<open>The writers\<close>

lemma fst_set_updatedAt:
  "executionState (fst (set_updatedAt wd)) = executionState (fst wd)"
  "wf_definition (fst (set_updatedAt wd)) = wf_definition (fst wd)"
  by (simp_all add: set_updatedAt_def Date_now_def split_def)

lemma updateProgress_frame:
  "stepStates (executionState (fst (updateProgress wd))) = stepStates (executionState (fst wd))"
  "wf_definition (fst (updateProgress wd)) = wf_definition (fst wd)"
  "activeSteps (executionState (fst (updateProgress wd))) = activeSteps (executionState (fst wd))"
  by (simp_all add: updateProgress_def Let_def split_def fst_set_updatedAt)

lemma updateStatus_status:
  "es_status (executionState (fst (updateStatus s wd))) = s"
  by (simp add: updateStatus_def Let_def split_def set_updatedAt_def Date_now_def)

lemma updateStatus_frame:
  "steps (wf_definition (fst (updateStatus s wd))) = steps (wf_definition (fst wd))"
  "stepStates (executionState (fst (updateStatus s wd))) = stepStates (executionState (fst wd))"
  by (simp_all add: updateStatus_def Let_def split_def set_updatedAt_def Date_now_def)

lemma updateStepState_stepStates:
  "stepStates (executionState (fst (updateStepState k p wd))) =
     (if js_not (js_get (stepStates (executionState (fst wd))) k)
      then assign_state (assign_state (stepStates (executionState (fst wd))) k defaultStepState) k
             (mergeStepState defaultStepState p)
      else assign_state (stepStates (executionState (fst wd))) k
             (mergeStepState (spread (js_get (stepStates (executionState (fst wd))) k)) p))"
  by (simp add: updateStepState_def Let_def split_def fst_set_updatedAt updateProgress_frame
        js_get_assign_same)


lemma updateStepState_activeSteps:
  "activeSteps (executionState (fst (updateStepState k p wd))) =
     (if p_status p = Present (Some StepRunning)
      then (if k \<in> set (activeSteps (executionState (fst wd)))
            then activeSteps (executionState (fst wd))
            else activeSteps (executionState (fst wd)) @ [k])
      else remove1 k (activeSteps (executionState (fst wd))))"
  by (simp add: updateStepState_def Let_def split_def fst_set_updatedAt updateProgress_frame)

lemma updateStepState_lookup:
  "getStepState (fst (updateStepState k p wd)) k =
     Object (mergeStepState
               (if js_not (getStepState (fst wd) k) then defaultStepState
                else spread (getStepState (fst wd) k)) p)"
  by (simp add: getStepState_def updateStepState_stepStates js_get_assign_same)


lemma setOutput_outputs:
  "outputs (executionState (fst (setOutput key val wd))) =
     Some (assign_value
             (case outputs (executionState (fst wd)) of None \<Rightarrow> empty_object | Some obj \<Rightarrow> obj)
             key val)"
  by (simp add: setOutput_def Let_def split_def fst_set_updatedAt)

lemma assign_value_plain:
  "key \<noteq> ''__proto__'' \<Longrightarrow>
   assign_value obj key val = obj\<lparr>own := AList.update key val (own obj)\<rparr>"
  by (simp add: assign_value_def)

subsection \<open>Counting step states\<close>

lemma count_values:
  "distinct (map fst al) \<Longrightarrow>
   length (filter P (map snd al)) = card {k. \<exists>v. map_of al k = Some v \<and> P v}"
proof (induction al)
  case Nil
  then show ?case by simp
next
  case (Cons a al)
  obtain k v where a: "a = (k, v)" by (cases a)
  from Cons.prems a have k: "map_of al k = None" and d: "distinct (map fst al)"
    by (auto simp: map_of_eq_None_iff)
  let ?S = "{k'. \<exists>v'. map_of al k' = Some v' \<and> P v'}"
  have fin: "finite ?S"
    by (rule finite_subset[of _ "dom (map_of al)"]) (auto simp: finite_dom_map_of)
  have notin: "k \<notin> ?S" using k by simp
  have eq: "{k'. \<exists>v'. map_of (a # al) k' = Some v' \<and> P v'} = (if P v then insert k ?S else ?S)"
    using k a by auto
  have "length (filter P (map snd (a # al))) =
        (if P v then 1 else 0) + length (filter P (map snd al))"
    by (simp add: a)
  also have "\<dots> = (if P v then 1 else 0) + card ?S"
    using Cons.IH[OF d] by simp
  also have "\<dots> = card (if P v then insert k ?S else ?S)"
    using fin notin by simp
  finally show ?case unfolding eq .
qed

lemma count_status_values:
  assumes "distinct (map fst (own (stepStates (executionState w))))"
  shows "length (filter (\<lambda>state. status state = Some s)
           (Object_values (stepStates (executionState w)))) = count_status w s"
proof -
  have eq: "{stepId. map_option status (map_of (own (stepStates (executionState w))) stepId)
                   = Some (Some s)}
        = {k. \<exists>v. map_of (own (stepStates (executionState w))) k = Some v \<and> status v = Some s}"
    by auto
  show ?thesis
    unfolding count_status_def Object_values_def eq
    by (rule count_values[OF assms])
qed

lemma updateProgress_progress:
  assumes "distinct (map fst (own (stepStates (executionState w))))"
  shows "progress (executionState (fst (updateProgress (w, c)))) = spec_progress w"
  by (simp add: updateProgress_def Let_def fst_set_updatedAt spec_progress_def
        count_status_values[OF assms])

lemma spec_progress_frame:
  assumes "steps (wf_definition w') = steps (wf_definition w)"
    and "stepStates (executionState w') = stepStates (executionState w)"
  shows "spec_progress w' = spec_progress w"
  by (simp add: spec_progress_def count_status_def assms)

lemma assign_state_distinct:
  "distinct (map fst (own d)) \<Longrightarrow> distinct (map fst (own (assign_state d k r)))"
  by (simp add: assign_state_def distinct_update)

lemma updateStepState_distinct:
  assumes "distinct (map fst (own (stepStates (executionState w))))"
  shows "distinct (map fst (own (stepStates (executionState (fst (updateStepState k p (w, c)))))))"
  using assms by (simp add: updateStepState_stepStates assign_state_distinct)

lemma updateStepState_progress:
  assumes "distinct (map fst (own (stepStates (executionState w))))"
  shows "progress (executionState (fst (updateStepState k p (w, c)))) =
         spec_progress (fst (updateStepState k p (w, c)))"
proof -
  obtain w1 where U: "updateStepState k p (w, c) = set_updatedAt (updateProgress (w1, c))"
    by (simp add: updateStepState_def Let_def)
  have d: "distinct (map fst (own (stepStates (executionState w1))))"
    using updateStepState_distinct[OF assms, of k p c]
    by (simp add: U fst_set_updatedAt updateProgress_frame)
  have "progress (executionState (fst (updateStepState k p (w, c)))) = spec_progress w1"
    by (simp add: U fst_set_updatedAt updateProgress_progress[OF d])
  also have "\<dots> = spec_progress (fst (updateStepState k p (w, c)))"
    by (rule spec_progress_frame[symmetric])
       (simp_all add: U fst_set_updatedAt updateProgress_frame)
  finally show ?thesis .
qed



subsection \<open>Keys named like members of \<^verbatim>\<open>Object.prototype\<close>, and the resolver of WorkflowPure.ts\<close>

lemma setOutput_proto_key:
  "outputs (executionState (fst (setOutput ''__proto__'' (JNum 1) (scenarioD, clock0))))
     = Some \<lparr>own = [], prototype = Object_prototype\<rparr>
   \<and> outputs (executionState
        (fst (setOutput ''__proto__'' (JObj [(''a'', JNum 1)]) (scenarioD, clock0))))
     = Some \<lparr>own = [], prototype = Replaced (JObj [(''a'', JNum 1)])\<rparr>
   \<and> outputs (executionState (fst (setOutput ''__proto__'' JNull (scenarioD, clock0))))
     = Some \<lparr>own = [], prototype = Null_prototype\<rparr>
   \<and> outputs (executionState
        (fst (setOutput ''__proto__'' (JNum 1) (setOutput ''__proto__'' JNull (scenarioD, clock0)))))
     = Some \<lparr>own = [(''__proto__'', JNum 1)], prototype = Null_prototype\<rparr>"
  by (simp add: setOutput_outputs assign_value_def hides_accessor_def empty_object_def
        scenarioD_def mk_workflow_def)

lemma resolver_Pure_throws:
  "getReadySteps_Pure scenarioA = Inl TypeError \<and> getReadySteps_Pure empty_graph = Inr []
   \<and> isStepReady_Pure scenarioA ''S1'' = Inl TypeError
   \<and> isStepReady_Pure scenarioA ''none'' = Inr False"
  by (simp add: getReadySteps_Pure_def isStepReady_Pure_def step_dependencies_def getStep_def
        scenarioA_def empty_graph_def mk_workflow_def mk_step_def)

section \<open>The claims\<close>

text \<open>
  Claim C1 (skip propagation), as the code has it. The resolver never reads a step's
  guard: whatever the \<^verbatim>\<open>condition\<close> fields of the steps are changed to, the ready list is
  the same, and the resolver writes no status. A dependency whose status is anything but
  \<^verbatim>\<open>completed\<close> (so also \<^verbatim>\<open>skipped\<close>) keeps its dependent out of the ready list. While
  the prototype of \<^verbatim>\<open>stepStates\<close> is \<^verbatim>\<open>Object.prototype\<close>, an id that is not a property
  name of \<^verbatim>\<open>Object.prototype\<close> is returned exactly when it is the id of a step, it has no
  state record or a record with status \<^verbatim>\<open>pending\<close>, and every \<^verbatim>\<open>dependsOn\<close> id of the
  first step carrying it has a record with status \<^verbatim>\<open>completed\<close>.
\<close>

theorem C1_guard_never_read:
  "getReadySteps
     (w\<lparr>wf_definition := (wf_definition w)
          \<lparr>steps := map (\<lambda>s. s\<lparr>condition := f s\<rparr>) (steps (wf_definition w))\<rparr>\<rparr>)
   = getReadySteps w
   \<and> (\<forall>stepId step d.
        getStep w stepId = Some step \<and> d \<in> set (dependsOn step) \<and>
        status_of (getStepState w d) \<noteq> Some StepCompleted
        \<longrightarrow> stepId \<notin> set (getReadySteps w))
   \<and> (prototype (stepStates (executionState w)) = Object_prototype \<longrightarrow>
        (\<forall>stepId. stepId \<notin> set Object_prototype_names \<longrightarrow>
           (stepId \<in> set (getReadySteps w) \<longleftrightarrow>
              stepId \<in> step_id ` set (steps (wf_definition w)) \<and>
              (map_of (own (stepStates (executionState w))) stepId = None \<or>
               (\<exists>r. map_of (own (stepStates (executionState w))) stepId = Some r \<and>
                    status r = Some StepPending)) \<and>
              (\<exists>step. getStep w stepId = Some step \<and>
                 (\<forall>d \<in> set (dependsOn step).
                    \<exists>r. map_of (own (stepStates (executionState w))) d = Some r \<and>
                        status r = Some StepCompleted)))))"
proof (intro conjI allI impI)
  let ?g = "\<lambda>s. s\<lparr>condition := f s\<rparr>"
  let ?w = "w\<lparr>wf_definition := (wf_definition w)\<lparr>steps := map ?g (steps (wf_definition w))\<rparr>\<rparr>"
  have st: "getStepState ?w = getStepState w" by (simp add: getStepState_def fun_eq_iff)
  have gs: "getStep ?w sid = map_option ?g (getStep w sid)" for sid
    by (simp add: getStep_def find_map_step)
  have r: "isStepReady ?w sid = isStepReady w sid" for sid
    by (simp add: isStepReady_def gs st split: option.splits)
  show "getReadySteps ?w = getReadySteps w"
    by (simp add: getReadySteps_def st r filter_map comp_def)
next
  fix stepId step d
  assume a: "getStep w stepId = Some step \<and> d \<in> set (dependsOn step) \<and>
        status_of (getStepState w d) \<noteq> Some StepCompleted"
  then have "\<not> isStepReady w stepId"
    by (auto simp: isStepReady_iff)
  then show "stepId \<notin> set (getReadySteps w)"
    by (simp add: in_getReadySteps_iff)
next
  fix stepId
  assume p: "prototype (stepStates (executionState w)) = Object_prototype"
    and n: "stepId \<notin> set Object_prototype_names"
  show "stepId \<in> set (getReadySteps w) \<longleftrightarrow>
              stepId \<in> step_id ` set (steps (wf_definition w)) \<and>
              (map_of (own (stepStates (executionState w))) stepId = None \<or>
               (\<exists>r. map_of (own (stepStates (executionState w))) stepId = Some r \<and>
                    status r = Some StepPending)) \<and>
              (\<exists>step. getStep w stepId = Some step \<and>
                 (\<forall>d \<in> set (dependsOn step).
                    \<exists>r. map_of (own (stepStates (executionState w))) d = Some r \<and>
                        status r = Some StepCompleted))"
    unfolding in_getReadySteps_iff isStepReady_iff lookup_plain[OF p]
    using n by simp
qed

text \<open>
  The theorem at Scenario B with the guarded step recorded as skipped, and the ready list
  of Scenario A.
\<close>

theorem C1_witness:
  "prototype (stepStates (executionState scenarioB_skipped)) = Object_prototype
   \<and> ''dependent'' \<notin> set Object_prototype_names
   \<and> getStep scenarioB_skipped ''dependent'' = Some (mk_step ''dependent'' [''guarded''] None)
   \<and> status_of (getStepState scenarioB_skipped ''guarded'') = Some StepSkipped
   \<and> ''dependent'' \<notin> set (getReadySteps scenarioB_skipped)
   \<and> getReadySteps scenarioA = [''S2'', ''S3'']"
proof -
  have p: "prototype (stepStates (executionState scenarioB_skipped)) = Object_prototype"
    by (simp add: scenarioB_skipped_def mk_workflow_def)
  have n: "''dependent'' \<notin> set Object_prototype_names"
    by (simp add: Object_prototype_names_def)
  have a: "getStep scenarioB_skipped ''dependent'' = Some (mk_step ''dependent'' [''guarded''] None)"
    by (simp add: scenarioB_skipped_def scenarioB_steps_def mk_workflow_def mk_step_def mk_state_def defaultStepState_def getStep_def)
  have b: "status_of (getStepState scenarioB_skipped ''guarded'') = Some StepSkipped"
    by (simp add: scenarioB_skipped_def mk_workflow_def mk_step_def mk_state_def defaultStepState_def getStepState_def js_get_def)
  have c: "''guarded'' \<in> set (dependsOn (mk_step ''dependent'' [''guarded''] None))"
    by (simp add: mk_step_def)
  have d: "status_of (getStepState scenarioB_skipped ''guarded'') \<noteq> Some StepCompleted"
    by (simp add: b)
  have e: "''dependent'' \<notin> set (getReadySteps scenarioB_skipped)"
    using C1_guard_never_read [where w = scenarioB_skipped and f = "\<lambda>s. None"] a c d
    by blast
  have f: "getReadySteps scenarioA = [''S2'', ''S3'']"
    by (simp add: scenarioA_def mk_workflow_def mk_step_def mk_state_def defaultStepState_def resolver_defs)
  from p n a b e f show ?thesis by blast
qed

text \<open>
  Claim C1 as stated fails: a step whose guard is the expression \<^verbatim>\<open>false\<close> is returned as
  ready and gets no \<^verbatim>\<open>skipped\<close> record, and a dependent whose only predecessor is skipped
  is not returned.
\<close>

theorem C1_counterexample:
  "getReadySteps scenarioB_fresh = [''guarded'']
   \<and> map_option expression (condition (hd (steps (wf_definition scenarioB_fresh)))) = Some (Some ''false'')
   \<and> getStepState (fst (snd (call_getReadySteps (scenarioB_fresh, clock0)))) ''guarded'' = Undefined
   \<and> getStepState scenarioB_skipped ''guarded'' = Object (mk_state StepSkipped)
   \<and> dependsOn (scenarioB_steps ! 1) = [''guarded'']
   \<and> getReadySteps scenarioB_skipped = []"
  by (simp add: scenarioB_fresh_def scenarioB_skipped_def scenarioB_steps_def mk_workflow_def mk_step_def mk_state_def defaultStepState_def
        resolver_defs call_getReadySteps_def)

text \<open>
  Claim C2 (illegal transitions), as the code has it. \<^verbatim>\<open>updateStatus\<close> and
  \<^verbatim>\<open>updateStepState\<close> have no transition check and no failure: whatever the current
  status, \<^verbatim>\<open>updateStatus(s)\<close> leaves the run with status \<open>s\<close>, and \<^verbatim>\<open>updateStepState\<close> with
  a partial update that carries a status leaves the step with that status. Terminal
  statuses are not absorbing.
\<close>

theorem C2_no_transition_check:
  "es_status (executionState (fst (updateStatus s wd))) = s
   \<and> (p_status patch = Present (Some st) \<longrightarrow>
        status_of (getStepState (fst (updateStepState stepId patch wd)) stepId) = Some st)"
  by (simp add: updateStatus_status updateStepState_lookup mergeStepState_def spread_field_def)

text \<open>
  The theorem at Scenario D: pausing the run, and completing a step that never ran.
\<close>

theorem C2_witness:
  "p_status (status_patch StepCompleted) = Present (Some StepCompleted)
   \<and> status_of
        (getStepState (fst (updateStepState ''S1'' (status_patch StepCompleted) (scenarioD, clock0)))
           ''S1'') = Some StepCompleted
   \<and> es_status (executionState (fst (updateStatus Paused (scenarioD, clock0)))) = Paused"
  using C2_no_transition_check
    [where patch = "status_patch StepCompleted" and st = StepCompleted
       and stepId = "''S1''" and wd = "(scenarioD, clock0)" and s = Paused]
  by (simp add: status_patch_def no_patch_def)

text \<open>
  Claim C2 as stated fails: a run with the terminal status \<^verbatim>\<open>completed\<close> goes back to
  \<^verbatim>\<open>running\<close>, and a step with status \<^verbatim>\<open>completed\<close> goes to \<^verbatim>\<open>running\<close> and into the
  active set; both calls succeed and change the state.
\<close>

theorem C2_counterexample:
  "es_status (executionState finished_run) = Completed
   \<and> es_status (executionState (fst (updateStatus Running (finished_run, clock0)))) = Running
   \<and> status_of (getStepState finished_run ''A'') = Some StepCompleted
   \<and> status_of
        (getStepState (fst (updateStepState ''A'' (status_patch StepRunning) (finished_run, clock0)))
           ''A'') = Some StepRunning
   \<and> activeSteps (executionState
        (fst (updateStepState ''A'' (status_patch StepRunning) (finished_run, clock0))))
       = [''A'']"
proof -
  have a: "es_status (executionState finished_run) = Completed"
    by (simp add: finished_run_def mk_workflow_def)
  have b: "es_status (executionState (fst (updateStatus Running (finished_run, clock0)))) = Running"
    by (simp add: updateStatus_status)
  have c: "status_of (getStepState finished_run ''A'') = Some StepCompleted"
    by (simp add: finished_run_def mk_workflow_def mk_step_def mk_state_def defaultStepState_def getStepState_def js_get_def)
  have d: "status_of
        (getStepState (fst (updateStepState ''A'' (status_patch StepRunning) (finished_run, clock0)))
           ''A'') = Some StepRunning"
    by (simp add: updateStepState_lookup mergeStepState_def spread_field_def status_patch_def
          no_patch_def)
  have e: "activeSteps (executionState
        (fst (updateStepState ''A'' (status_patch StepRunning) (finished_run, clock0))))
       = [''A'']"
    by (simp add: updateStepState_activeSteps status_patch_def no_patch_def finished_run_def
          mk_workflow_def)
  from a b c d e show ?thesis by blast
qed



text \<open>
  Claim C4 (concurrency budget), as the code has it. \<^verbatim>\<open>getReadySteps\<close> reads neither
  \<^verbatim>\<open>maxConcurrency\<close> nor \<^verbatim>\<open>activeSteps\<close>: changing either leaves the ready list
  unchanged. In Scenario D (limit 2, three independent steps, nothing active) all three
  steps are returned.
\<close>

theorem C4_concurrency_ignored:
  "getReadySteps
     (w\<lparr>wf_definition := (wf_definition w)\<lparr>maxConcurrency := limit\<rparr>,
        executionState := (executionState w)\<lparr>activeSteps := active\<rparr>\<rparr>)
   = getReadySteps w
   \<and> getReadySteps scenarioD = [''S1'', ''S2'', ''S3'']"
proof
  show "getReadySteps
     (w\<lparr>wf_definition := (wf_definition w)\<lparr>maxConcurrency := limit\<rparr>,
        executionState := (executionState w)\<lparr>activeSteps := active\<rparr>\<rparr>)
   = getReadySteps w"
    by (rule getReadySteps_frame) simp_all
  show "getReadySteps scenarioD = [''S1'', ''S2'', ''S3'']"
    by (simp add: scenarioD_def mk_workflow_def mk_step_def resolver_defs)
qed

text \<open>
  The theorem at Scenario A with limit 1 and \<open>S1\<close> put into the active set.
\<close>

theorem C4_witness:
  "getReadySteps
     (scenarioA\<lparr>wf_definition := (wf_definition scenarioA)\<lparr>maxConcurrency := Some 1\<rparr>,
        executionState := (executionState scenarioA)\<lparr>activeSteps := [''S1'']\<rparr>\<rparr>)
   = [''S2'', ''S3'']"
proof -
  have "getReadySteps scenarioA = [''S2'', ''S3'']"
    by (simp add: scenarioA_def mk_workflow_def mk_step_def mk_state_def defaultStepState_def
          resolver_defs)
  with C4_concurrency_ignored [where w = scenarioA and limit = "Some 1" and active = "[''S1'']"]
  show ?thesis by simp
qed

text \<open>
  Claim C4 as stated fails in Scenario D: the limit is 2, no step is active, and the
  resolver returns three steps.
\<close>

theorem C4_counterexample:
  "maxConcurrency (wf_definition scenarioD) = Some 2
   \<and> activeSteps (executionState scenarioD) = []
   \<and> length (getReadySteps scenarioD) = 3
   \<and> \<not> length (getReadySteps scenarioD) \<le> 2 - length (activeSteps (executionState scenarioD))"
  by (simp add: scenarioD_def mk_workflow_def mk_step_def resolver_defs)

text \<open>
  Claim C5 (progress aggregation). \<^verbatim>\<open>updateProgress\<close> stores the aggregate of the step
  graph and the step states: the number of steps of the definition, the numbers of step
  states with status \<^verbatim>\<open>completed\<close>, \<^verbatim>\<open>failed\<close> and \<^verbatim>\<open>skipped\<close>, and completed / total as a
  percentage (0 when there is no step). \<^verbatim>\<open>updateStepState\<close> ends with \<^verbatim>\<open>updateProgress\<close>,
  so after every step transition the stored progress is the aggregate of the step states
  the transition leaves. The hypothesis is the representation invariant of the state
  object (one record per key). The division is over the reals; the source divides
  doubles.
\<close>

theorem C5_progress_aggregate:
  "distinct (map fst (own (stepStates (executionState w)))) \<Longrightarrow>
   progress (executionState (fst (updateProgress (w, c)))) = spec_progress w
   \<and> progress (executionState (fst (updateStepState stepId patch (w, c))))
       = spec_progress (fst (updateStepState stepId patch (w, c)))"
  by (simp add: updateProgress_progress updateStepState_progress)

text \<open>
  The theorem at Scenario A: one of four steps completed, 25 percent.
\<close>

theorem C5_witness:
  "distinct (map fst (own (stepStates (executionState scenarioA))))
   \<and> progress (executionState (fst (updateProgress (scenarioA, clock0)))) =
       \<lparr>totalSteps = 4, completedSteps = 1, failedSteps = 0, skippedSteps = 0,
        progressPercent = 25\<rparr>
   \<and> spec_progress scenarioA =
       \<lparr>totalSteps = 4, completedSteps = 1, failedSteps = 0, skippedSteps = 0,
        progressPercent = 25\<rparr>"
proof -
  have d: "distinct (map fst (own (stepStates (executionState scenarioA))))"
    by (simp add: scenarioA_def mk_workflow_def)
  have p: "progress (executionState (fst (updateProgress (scenarioA, clock0)))) =
       \<lparr>totalSteps = 4, completedSteps = 1, failedSteps = 0, skippedSteps = 0,
        progressPercent = 25\<rparr>"
    by (simp add: updateProgress_def Let_def fst_set_updatedAt Object_values_def scenarioA_def
          mk_workflow_def mk_step_def mk_state_def defaultStepState_def)
  from C5_progress_aggregate [OF d, of clock0] p d show ?thesis by simp
qed

text \<open>
  Claim C7 (the output bag), as the code has it. For every key other than \<^verbatim>\<open>__proto__\<close>,
  \<^verbatim>\<open>setOutput\<close> is last-write-wins: after \<^verbatim>\<open>setOutput(key, value)\<close> the bag stores \<open>value\<close>
  at \<open>key\<close>, whatever it stored before, and every other key stores what it stored.
\<close>

theorem C7_last_write_wins:
  "key \<noteq> ''__proto__'' \<Longrightarrow>
   outputAt (fst (setOutput key val wd)) key = Some val
   \<and> (\<forall>other. other \<noteq> key \<longrightarrow>
         outputAt (fst (setOutput key val wd)) other = outputAt (fst wd) other)"
  by (simp add: outputAt_def setOutput_outputs assign_value_plain update_conv' empty_object_def
      split: option.splits)

text \<open>
  The theorem at two writes to different keys.
\<close>

theorem C7_witness:
  "''b'' \<noteq> ''__proto__'' \<and> ''a'' \<noteq> ''__proto__'' \<and> ''a'' \<noteq> ''b''
   \<and> outputAt (fst (setOutput ''b'' (JNum 7) (setOutput ''a'' (JNum 1) (scenarioD, clock0)))) ''a''
       = Some (JNum 1)
   \<and> outputAt (fst (setOutput ''b'' (JNum 7) (setOutput ''a'' (JNum 1) (scenarioD, clock0)))) ''b''
       = Some (JNum 7)"
proof -
  have n: "''b'' \<noteq> ''__proto__''" "''a'' \<noteq> ''__proto__''" "''a'' \<noteq> ''b''" by simp_all
  from C7_last_write_wins [OF n(1), where val = "JNum 7" and wd = "setOutput ''a'' (JNum 1) (scenarioD, clock0)"]
    C7_last_write_wins [OF n(2), where val = "JNum 1" and wd = "(scenarioD, clock0)"]
  show ?thesis by simp
qed

text \<open>
  Claim C7 as stated fails: a second \<^verbatim>\<open>setOutput\<close> for the same key replaces the value
  the first one wrote.
\<close>

theorem C7_counterexample:
  "outputAt (fst (setOutput ''a'' (JNum 1) (scenarioD, clock0))) ''a'' = Some (JNum 1)
   \<and> outputAt (fst (setOutput ''a'' (JNum 2) (setOutput ''a'' (JNum 1) (scenarioD, clock0)))) ''a''
       = Some (JNum 2)"
  by (simp add: outputAt_def setOutput_outputs assign_value_plain update_conv' empty_object_def
      split: option.splits)

text \<open>
  Claim C8 (the resolver has no side effect and is idempotent). A call of
  \<^verbatim>\<open>getReadySteps\<close> leaves the data and the clock as they were, a second call returns what
  the first returned, and the result is a function of \<^verbatim>\<open>definition.steps\<close> and
  \<^verbatim>\<open>executionState.stepStates\<close> alone.
\<close>

theorem C8_resolver_pure:
  "snd (call_getReadySteps wd) = wd
   \<and> fst (call_getReadySteps (snd (call_getReadySteps wd))) = fst (call_getReadySteps wd)
   \<and> (\<forall>w' c'. steps (wf_definition w') = steps (wf_definition (fst wd)) \<and>
         stepStates (executionState w') = stepStates (executionState (fst wd))
         \<longrightarrow> fst (call_getReadySteps (w', c')) = fst (call_getReadySteps wd))"
  by (auto simp: call_getReadySteps_def intro: getReadySteps_frame)

text \<open>
  The theorem at Scenario A, called twice, and called again after a pause of the run.
\<close>

theorem C8_witness:
  "call_getReadySteps (scenarioA, clock0) = ([''S2'', ''S3''], (scenarioA, clock0))
   \<and> fst (call_getReadySteps (snd (call_getReadySteps (scenarioA, clock0)))) = [''S2'', ''S3'']
   \<and> fst (call_getReadySteps (fst (updateStatus Paused (scenarioA, clock0)), clock0)) = [''S2'', ''S3'']"
proof -
  have r: "getReadySteps scenarioA = [''S2'', ''S3'']"
    by (simp add: scenarioA_def mk_workflow_def mk_step_def mk_state_def defaultStepState_def
          resolver_defs)
  have f: "steps (wf_definition (fst (updateStatus Paused (scenarioA, clock0)))) = steps (wf_definition scenarioA)
      \<and> stepStates (executionState (fst (updateStatus Paused (scenarioA, clock0)))) = stepStates (executionState scenarioA)"
    by (simp add: updateStatus_frame)
  from C8_resolver_pure [where wd = "(scenarioA, clock0)"] r f
  show ?thesis by (simp add: call_getReadySteps_def)
qed

text \<open>
  Claim C9 (the ready list does not depend on the run status). Two workflows that differ
  in \<^verbatim>\<open>executionState.status\<close> only have the same ready list, with the resolver of
  \<^verbatim>\<open>Workflow.ts\<close>; the one of \<^verbatim>\<open>WorkflowPure.ts\<close> has the same outcome for both.
\<close>

theorem C9_status_independent:
  "getReadySteps (w\<lparr>executionState := (executionState w)\<lparr>es_status := s\<rparr>\<rparr>) = getReadySteps w
   \<and> getReadySteps_Pure (w\<lparr>executionState := (executionState w)\<lparr>es_status := s\<rparr>\<rparr>)
       = getReadySteps_Pure w"
proof
  show "getReadySteps (w\<lparr>executionState := (executionState w)\<lparr>es_status := s\<rparr>\<rparr>) = getReadySteps w"
    by (rule getReadySteps_frame) simp_all
  show "getReadySteps_Pure (w\<lparr>executionState := (executionState w)\<lparr>es_status := s\<rparr>\<rparr>)
       = getReadySteps_Pure w"
    by (rule getReadySteps_Pure_frame) simp_all
qed

text \<open>
  The theorem at a cancelled run: its pending step with a completed dependency is
  reported as ready, as it is when the run is running.
\<close>

theorem C9_witness:
  "es_status (executionState cancelled_run) = Cancelled
   \<and> getReadySteps cancelled_run = [''B'']
   \<and> getReadySteps (cancelled_run\<lparr>executionState := (executionState cancelled_run)\<lparr>es_status := Running\<rparr>\<rparr>) = [''B'']"
proof -
  have "getReadySteps cancelled_run = [''B'']"
    by (simp add: cancelled_run_def mk_workflow_def mk_step_def mk_state_def defaultStepState_def
          resolver_defs)
  with C9_status_independent [where w = cancelled_run and s = Running]
  show ?thesis by (simp add: cancelled_run_def mk_workflow_def)
qed




end
